theory Spec2Isabelle
  imports Complex_Main
begin

section \<open>Data model\<close>

text \<open>
  The position manager (\<^verbatim>\<open>position_manager.py\<close>) and the simulation loop
  (\<^verbatim>\<open>backtest_engine.py\<close>) are embedded as functions over an explicit store.

  Numbers: Python floats are modelled as exact rationals, and a Python division by zero
  raises \<^verbatim>\<open>ZeroDivisionError\<close>. Timestamps are integers (any linear order would
  do); the ISO string written by \<^verbatim>\<open>isoformat\<close> and read back by
  \<^verbatim>\<open>pd.to_datetime\<close> is the timestamp itself.
\<close>

datatype py_error = ZeroDivisionError | TypeError | IndexError | PyMongoError

text \<open>
  A stop or take level is the one float that can be a NaN in the run: \<^verbatim>\<open>pd.DataFrame\<close>
  reads an absent level of a signal as NaN when another row of the column holds a number
  (and as \<^verbatim>\<open>None\<close> when none does), and \<^verbatim>\<open>float(nan)\<close> is stored as it is. Every
  comparison with a NaN is false and every sum with a NaN is a NaN.
\<close>

datatype level = Num rat | NaN

text \<open>
  The constants of \<^verbatim>\<open>Config_q.Config\<close> that \<^verbatim>\<open>PositionManager.__init__\<close>
  copies into the instance. The module is not part of the sources, so the values are
  parameters. \<open>symbol_precision\<close> is the second argument of \<^verbatim>\<open>round\<close>.
\<close>

record config =
  slippage :: rat
  fee_rate :: rat
  risk_per_trade :: rat
  stop_loss_atr :: rat
  take_profit_atr :: rat
  leverage :: rat
  symbol_precision :: int
  capital :: rat
  max_positions :: int
  max_risk :: rat

text \<open>
  A document of the \<^verbatim>\<open>positions\<close> collection. \<open>ident\<close> is the key
  \<^verbatim>\<open>_id\<close>. A level that is null or missing in the document is \<open>None\<close>.
\<close>

record position =
  ident :: nat
  symbol :: string
  side :: string
  qty :: rat
  entry_price :: rat
  atr :: rat
  stop_loss :: "level option"
  take_profit :: "level option"
  open_time :: int
  status :: string

text \<open>A document of the \<^verbatim>\<open>trades\<close> collection, as \<^verbatim>\<open>close_position\<close> builds it.\<close>

record trade =
  tr_symbol :: string
  tr_side :: string
  tr_qty :: rat
  tr_entry_price :: rat
  tr_exit_price :: rat
  tr_open_time :: int
  tr_close_time :: int
  gross_pnl :: rat
  fee :: rat
  pnl :: rat
  reason :: string

text \<open>
  A row of \<^verbatim>\<open>df_processed\<close>. \<open>bar_atr_14\<close> is \<open>None\<close> for a NaN.
\<close>

record bar =
  bar_timestamp :: int
  bar_open :: rat
  bar_high :: rat
  bar_low :: rat
  bar_close :: rat
  bar_atr_14 :: "rat option"

text \<open>
  A row of \<^verbatim>\<open>signals_df\<close>: \<open>sig_value\<close> is the column \<^verbatim>\<open>value\<close>. A level is
  \<open>None\<close> for Python's \<^verbatim>\<open>None\<close> and \<open>Some NaN\<close> for a NaN.
\<close>

record signal =
  sig_timestamp :: int
  signal_type :: string
  sig_value :: rat
  sig_stop_loss :: "level option"
  sig_take_profit :: "level option"

text \<open>
  The MongoDB database the position manager talks to: the two collections in insertion
  order, the next fresh \<^verbatim>\<open>_id\<close>, and the outcomes of the coming driver calls
  (\<open>True\<close>: the call raises; an empty list: no call raises any more).
\<close>

record store =
  positions :: "position list"
  trades :: "trade list"
  next_id :: nat
  faults :: "bool list"

definition db_call :: "store \<Rightarrow> bool \<times> store" where
  "db_call s = (case faults s of [] \<Rightarrow> (False, s) | f # fs \<Rightarrow> (f, s\<lparr>faults := fs\<rparr>))"

section \<open>Position manager\<close>

subsection \<open>Sizing\<close>

text \<open>
  Python's \<^verbatim>\<open>round(x, n)\<close> on a float: the nearest multiple of \<open>10\<^sup>-\<^sup>n\<close>,
  a tie going to the even one.
\<close>

definition round_half_even :: "rat \<Rightarrow> int" where
  "round_half_even y =
     (let f = \<lfloor>y\<rfloor>; d = y - of_int f
      in if d < 1 / 2 then f
         else if 1 / 2 < d then f + 1
         else if even f then f else f + 1)"

definition py_round :: "rat \<Rightarrow> int \<Rightarrow> rat" where
  "py_round x n =
     (if 0 \<le> n then of_int (round_half_even (x * 10 ^ nat n)) / 10 ^ nat n
      else of_int (round_half_even (x / 10 ^ nat (- n))) * 10 ^ nat (- n))"

text \<open>The body of the \<^verbatim>\<open>try\<close> block of \<^verbatim>\<open>calculate_position_size\<close>.\<close>

definition position_size_body :: "config \<Rightarrow> rat \<Rightarrow> rat \<Rightarrow> py_error + rat" where
  "position_size_body cfg atr_v cap =
     (let risk_amount = cap * risk_per_trade cfg;
          stop_loss_distance = atr_v * stop_loss_atr cfg
      in if stop_loss_distance * leverage cfg = 0 then Inl ZeroDivisionError
         else Inr (py_round (risk_amount / (stop_loss_distance * leverage cfg))
                     (symbol_precision cfg)))"

definition calculate_position_size :: "config \<Rightarrow> string \<Rightarrow> rat \<Rightarrow> rat \<Rightarrow> rat \<Rightarrow> rat" where
  "calculate_position_size cfg smb entry atr_v cap =
     (case position_size_body cfg atr_v cap of Inl e \<Rightarrow> 0 | Inr q \<Rightarrow> q)"

subsection \<open>Limits\<close>

definition get_open_positions :: "store \<Rightarrow> position list \<times> store" where
  "get_open_positions s =
     (case db_call s of
        (True, s1) \<Rightarrow> ([], s1)
      | (False, s1) \<Rightarrow> (filter (\<lambda>p. status p = ''open'') (positions s1), s1))"

text \<open>
  The loop that adds up the risk of the open positions; a position without a stop level
  makes the subtraction raise \<^verbatim>\<open>TypeError\<close>, and a NaN stop makes the total a NaN.
\<close>

fun add_risk :: "level \<Rightarrow> rat \<Rightarrow> rat \<Rightarrow> level \<Rightarrow> level" where
  "add_risk (Num total_risk) p_entry p_qty (Num p_stop) =
     Num (total_risk + \<bar>p_entry - p_stop\<bar> * p_qty)"
| "add_risk total_risk p_entry p_qty p_stop = NaN"

fun total_risk_loop :: "level \<Rightarrow> position list \<Rightarrow> py_error + level" where
  "total_risk_loop total_risk [] = Inr total_risk"
| "total_risk_loop total_risk (p # ps) =
     (case stop_loss p of
        None \<Rightarrow> Inl TypeError
      | Some p_stop \<Rightarrow>
          total_risk_loop (add_risk total_risk (entry_price p) (qty p) p_stop) ps)"

text \<open>The test \<^verbatim>\<open>total_risk + new_risk > limit\<close>: false for a NaN total.\<close>

fun risk_exceeds :: "level \<Rightarrow> rat \<Rightarrow> rat \<Rightarrow> bool" where
  "risk_exceeds (Num total_risk) new_risk limit \<longleftrightarrow> limit < total_risk + new_risk"
| "risk_exceeds NaN new_risk limit \<longleftrightarrow> False"

definition check_position_limit ::
  "config \<Rightarrow> store \<Rightarrow> string \<Rightarrow> string \<Rightarrow> rat \<Rightarrow> rat \<Rightarrow> rat option \<times> store" where
  "check_position_limit cfg s smb sd entry atr_v =
     (let (ps, s1) = get_open_positions s;
          cap = capital cfg;
          q = calculate_position_size cfg smb entry atr_v cap
      in if q \<le> 0 then (None, s1)
         else if max_positions cfg \<le> int (length ps) then (None, s1)
         else (case total_risk_loop (Num 0) ps of
                 Inl e \<Rightarrow> (None, s1)
               | Inr total_risk \<Rightarrow>
                   (let stop_loss_price =
                          (if sd = ''long'' then entry - atr_v * stop_loss_atr cfg
                           else entry + atr_v * stop_loss_atr cfg);
                        new_risk = \<bar>entry - stop_loss_price\<bar> * q
                    in if risk_exceeds total_risk new_risk (max_risk cfg * cap) then (None, s1)
                       else (Some q, s1))))"

definition has_open_position :: "store \<Rightarrow> string \<Rightarrow> string \<Rightarrow> rat \<Rightarrow> bool \<times> store" where
  "has_open_position s smb sd entry =
     (case db_call s of
        (True, s1) \<Rightarrow> (False, s1)
      | (False, s1) \<Rightarrow>
          (find (\<lambda>p. symbol p = smb \<and> side p = sd \<and> entry_price p = entry
                      \<and> status p = ''open'') (positions s1) \<noteq> None, s1))"

subsection \<open>Opening\<close>

definition open_position ::
  "store \<Rightarrow> string \<Rightarrow> string \<Rightarrow> rat \<Rightarrow> int \<Rightarrow> rat \<Rightarrow> rat \<Rightarrow> level option
     \<Rightarrow> level option \<Rightarrow> position option \<times> store" where
  "open_position s smb sd entry entry_time q atr_v sl tp =
     (let position_doc =
            \<lparr>ident = next_id s, symbol = smb, side = sd, qty = q, entry_price = entry,
             atr = atr_v,
             stop_loss = Some (case sl of Some v \<Rightarrow> v | None \<Rightarrow> Num 0),
             take_profit = Some (case tp of Some v \<Rightarrow> v | None \<Rightarrow> Num 0),
             open_time = entry_time, status = ''open''\<rparr>
      in case db_call s of
           (True, s1) \<Rightarrow> (None, s1)
         | (False, s1) \<Rightarrow>
             (Some position_doc,
              s1\<lparr>positions := positions s1 @ [position_doc], next_id := Suc (next_id s1)\<rparr>))"

subsection \<open>Exit evaluation\<close>

text \<open>\<^verbatim>\<open>str.lower\<close> on ASCII text.\<close>

definition lower_char :: "char \<Rightarrow> char" where
  "lower_char c =
     (let n = (of_char c :: nat) in if 65 \<le> n \<and> n \<le> 90 then char_of (n + 32) else c)"

definition lower :: "string \<Rightarrow> string" where
  "lower s = map lower_char s"

text \<open>
  The comparisons of a bar's price with a level: \<^verbatim>\<open>price <= level\<close> and
  \<^verbatim>\<open>price >= level\<close>. The result is the number of the level when the comparison holds,
  and \<open>None\<close> when it does not, as with every NaN level.
\<close>

fun at_or_below :: "rat \<Rightarrow> level \<Rightarrow> rat option" where
  "at_or_below price (Num v) = (if price \<le> v then Some v else None)"
| "at_or_below price NaN = None"

fun at_or_above :: "rat \<Rightarrow> level \<Rightarrow> rat option" where
  "at_or_above price (Num v) = (if v \<le> price then Some v else None)"
| "at_or_above price NaN = None"

text \<open>
  The \<^verbatim>\<open>for j in idx_positions\<close> loop. The result \<open>None\<close> is the tuple
  \<^verbatim>\<open>(False, None, None, None)\<close>, and \<open>Some (exit_price, exit_time, reason)\<close> is
  \<^verbatim>\<open>(True, exit_price, exit_time, reason)\<close>.
\<close>

fun exit_scan :: "config \<Rightarrow> position \<Rightarrow> bar list \<Rightarrow> (rat \<times> int \<times> string) option" where
  "exit_scan cfg pos [] = None"
| "exit_scan cfg pos (b # bs) =
     (case stop_loss pos of
        None \<Rightarrow> exit_scan cfg pos bs
      | Some stop_v \<Rightarrow>
         (case take_profit pos of
            None \<Rightarrow> exit_scan cfg pos bs
          | Some take_v \<Rightarrow>
             (if lower (side pos) = ''long'' then
                (case at_or_below (bar_low b) stop_v of
                   Some st \<Rightarrow> Some (st * (1 - slippage cfg), bar_timestamp b, ''stop_loss'')
                 | None \<Rightarrow>
                    (case at_or_above (bar_high b) take_v of
                       Some tk \<Rightarrow>
                         Some (tk * (1 - slippage cfg), bar_timestamp b, ''take_profit'')
                     | None \<Rightarrow> exit_scan cfg pos bs))
              else if lower (side pos) = ''short'' then
                (case at_or_above (bar_high b) stop_v of
                   Some st \<Rightarrow>
                     Some (max (bar_open b) st * (1 + slippage cfg), bar_timestamp b,
                           ''stop_loss'')
                 | None \<Rightarrow>
                    (case at_or_below (bar_low b) take_v of
                       Some tk \<Rightarrow>
                         Some (min (bar_open b) tk * (1 + slippage cfg), bar_timestamp b,
                               ''take_profit'')
                     | None \<Rightarrow> exit_scan cfg pos bs))
              else exit_scan cfg pos bs)))"

definition check_exit_conditions ::
  "config \<Rightarrow> position \<Rightarrow> bar list \<Rightarrow> (rat \<times> int \<times> string) option" where
  "check_exit_conditions cfg pos df =
     exit_scan cfg pos (filter (\<lambda>b. open_time pos \<le> bar_timestamp b) df)"

subsection \<open>Closing\<close>

text \<open>\<^verbatim>\<open>update_one\<close> with \<^verbatim>\<open>$set status\<close>: the first document with the key.\<close>

fun update_one_status :: "nat \<Rightarrow> string \<Rightarrow> position list \<Rightarrow> position list" where
  "update_one_status i v [] = []"
| "update_one_status i v (p # ps) =
     (if ident p = i then p\<lparr>status := v\<rparr> # ps else p # update_one_status i v ps)"

definition close_position ::
  "config \<Rightarrow> store \<Rightarrow> nat \<Rightarrow> rat \<Rightarrow> int \<Rightarrow> string \<Rightarrow> trade option \<times> store" where
  "close_position cfg s position_id exit_price exit_time rsn =
     (case db_call s of
        (True, s1) \<Rightarrow> (None, s1)
      | (False, s1) \<Rightarrow>
         (case find (\<lambda>p. ident p = position_id) (positions s1) of
            None \<Rightarrow> (None, s1)
          | Some p \<Rightarrow>
             (let gross = (if side p = ''long'' then (exit_price - entry_price p) * qty p
                           else (entry_price p - exit_price) * qty p)
              in if leverage cfg = 0 then (None, s1)
                 else
                  (let fee_v = (\<bar>entry_price p\<bar> + \<bar>exit_price\<bar>) * qty p * fee_rate cfg
                                 / leverage cfg;
                       pnl_v = gross - fee_v
                   in case db_call s1 of
                        (True, s2) \<Rightarrow> (None, s2)
                      | (False, s2) \<Rightarrow>
                         (let s3 = s2\<lparr>positions :=
                                        update_one_status position_id ''closed'' (positions s2)\<rparr>;
                              trade_doc =
                                \<lparr>tr_symbol = symbol p, tr_side = side p, tr_qty = qty p,
                                 tr_entry_price = entry_price p, tr_exit_price = exit_price,
                                 tr_open_time = open_time p, tr_close_time = exit_time,
                                 gross_pnl = gross, fee = fee_v, pnl = pnl_v, reason = rsn\<rparr>
                          in case db_call s3 of
                               (True, s4) \<Rightarrow> (None, s4)
                             | (False, s4) \<Rightarrow>
                                 (Some trade_doc, s4\<lparr>trades := trades s4 @ [trade_doc]\<rparr>))))))"

section \<open>Simulation loop\<close>

text \<open>
  \<^verbatim>\<open>BacktestEngine.run\<close> for one symbol, from step 4 on: \<open>df_processed\<close> is the merged
  frame of bars and \<open>signals\<close> the rows of \<^verbatim>\<open>signals_df\<close>, both in ascending time.
\<close>

definition data_since_entry :: "bar list \<Rightarrow> position \<Rightarrow> bar list" where
  "data_since_entry df_processed pos =
     filter (\<lambda>b. open_time pos \<le> bar_timestamp b) df_processed"

text \<open>The \<^verbatim>\<open>for pos in open_positions\<close> loop of the exit phase.\<close>

fun exit_loop :: "config \<Rightarrow> bar list \<Rightarrow> position list \<Rightarrow> store \<Rightarrow> store" where
  "exit_loop cfg df_processed [] s = s"
| "exit_loop cfg df_processed (pos # ps) s =
     (case check_exit_conditions cfg pos (data_since_entry df_processed pos) of
        None \<Rightarrow> exit_loop cfg df_processed ps s
      | Some (exit_price, exit_time, rsn) \<Rightarrow>
          exit_loop cfg df_processed ps
            (snd (close_position cfg s (ident pos) exit_price exit_time rsn)))"

definition exit_phase :: "config \<Rightarrow> bar list \<Rightarrow> store \<Rightarrow> store" where
  "exit_phase cfg df_processed s =
     (let (open_positions, s1) = get_open_positions s
      in exit_loop cfg df_processed open_positions s1)"

text \<open>The body of the \<^verbatim>\<open>while current_signal\<close> loop for one signal.\<close>

definition enter_signal :: "config \<Rightarrow> string \<Rightarrow> bar \<Rightarrow> signal \<Rightarrow> store \<Rightarrow> store" where
  "enter_signal cfg smb b sg s =
     (case bar_atr_14 b of
        None \<Rightarrow> s
      | Some atr_val \<Rightarrow>
         (let (q, s1) = check_position_limit cfg s smb (signal_type sg) (sig_value sg) atr_val
          in case q of
               None \<Rightarrow> s1
             | Some qv \<Rightarrow>
                 if qv \<noteq> 0 \<and> 0 < qv then
                   (let (dup, s2) = has_open_position s1 smb (signal_type sg) (sig_value sg)
                    in if dup then s2
                       else snd (open_position s2 smb (signal_type sg) (sig_value sg)
                                   (bar_timestamp b) qv atr_val
                                   (sig_stop_loss sg) (sig_take_profit sg)))
                 else s1))"

fun entry_loop ::
  "config \<Rightarrow> string \<Rightarrow> bar \<Rightarrow> signal list \<Rightarrow> store \<Rightarrow> signal list \<times> store" where
  "entry_loop cfg smb b [] s = ([], s)"
| "entry_loop cfg smb b (sg # rest) s =
     (if sig_timestamp sg \<le> bar_timestamp b
      then entry_loop cfg smb b rest (enter_signal cfg smb b sg s)
      else (sg # rest, s))"

text \<open>The \<^verbatim>\<open>for idx, bar in df_processed.iterrows()\<close> loop over the remaining bars.\<close>

fun bar_loop ::
  "config \<Rightarrow> string \<Rightarrow> bar list \<Rightarrow> bar list \<Rightarrow> signal list \<Rightarrow> store
     \<Rightarrow> signal list \<times> store" where
  "bar_loop cfg smb df_processed [] sigs s = (sigs, s)"
| "bar_loop cfg smb df_processed (b # bs) sigs s =
     (let s1 = exit_phase cfg df_processed s;
          (sigs', s2) = entry_loop cfg smb b sigs s1
      in bar_loop cfg smb df_processed bs sigs' s2)"

text \<open>
  The forced close at the end. \<^verbatim>\<open>trade['pnl']\<close> on a failed close raises
  \<^verbatim>\<open>TypeError\<close>, which nothing catches: the run stops there, with the store as it is.
\<close>

fun force_close_loop ::
  "config \<Rightarrow> bar \<Rightarrow> position list \<Rightarrow> store \<Rightarrow> py_error option \<times> store" where
  "force_close_loop cfg last_bar [] s = (None, s)"
| "force_close_loop cfg last_bar (pos # ps) s =
     (case close_position cfg s (ident pos) (bar_close last_bar) (bar_timestamp last_bar)
             ''End of Backtest'' of
        (None, s1) \<Rightarrow> (Some TypeError, s1)
      | (Some t, s1) \<Rightarrow> force_close_loop cfg last_bar ps s1)"

definition force_close :: "config \<Rightarrow> bar list \<Rightarrow> store \<Rightarrow> py_error option \<times> store" where
  "force_close cfg df_processed s =
     (let (open_positions, s1) = get_open_positions s
      in if 0 < length open_positions then
           (case df_processed of
              [] \<Rightarrow> (Some IndexError, s1)
            | _ # _ \<Rightarrow> force_close_loop cfg (last df_processed) open_positions s1)
         else (None, s1))"

definition run_symbol ::
  "config \<Rightarrow> string \<Rightarrow> bar list \<Rightarrow> signal list \<Rightarrow> store \<Rightarrow> py_error option \<times> store" where
  "run_symbol cfg smb df_processed signals s =
     (if df_processed = [] then (None, s)
      else if signals = [] then (None, s)
      else (let (sigs', s1) = bar_loop cfg smb df_processed df_processed signals s
            in force_close cfg df_processed s1))"

section \<open>Derived notions and concrete inputs\<close>

text \<open>The trade document that a successful \<open>close_position\<close> builds from the position it found.\<close>

definition trade_of :: "config \<Rightarrow> position \<Rightarrow> rat \<Rightarrow> int \<Rightarrow> string \<Rightarrow> trade" where
  "trade_of cfg p x t r =
     \<lparr>tr_symbol = symbol p, tr_side = side p, tr_qty = qty p,
      tr_entry_price = entry_price p, tr_exit_price = x,
      tr_open_time = open_time p, tr_close_time = t,
      gross_pnl = (if side p = ''long'' then (x - entry_price p) * qty p
                   else (entry_price p - x) * qty p),
      fee = (\<bar>entry_price p\<bar> + \<bar>x\<bar>) * qty p * fee_rate cfg / leverage cfg,
      pnl = (if side p = ''long'' then (x - entry_price p) * qty p
             else (entry_price p - x) * qty p)
            - (\<bar>entry_price p\<bar> + \<bar>x\<bar>) * qty p * fee_rate cfg / leverage cfg,
      reason = r\<rparr>"

text \<open>The configuration of the worked scenario: capital 10000, 1\% risk per trade.\<close>

definition example_config :: config where
  "example_config = \<lparr>slippage = 1 / 1000, fee_rate = 4 / 10000, risk_per_trade = 1 / 100,
     stop_loss_atr = 2, take_profit_atr = 3, leverage = 1, symbol_precision = 3,
     capital = 10000, max_positions = 2, max_risk = 5 / 100\<rparr>"

definition long_position :: position where
  "long_position = \<lparr>ident = 0, symbol = ''BTC/USDT'', side = ''long'', qty = 25,
     entry_price = 100, atr = 2, stop_loss = Some (Num 96), take_profit = Some (Num 106),
     open_time = 1, status = ''open''\<rparr>"

definition short_position :: position where
  "short_position = \<lparr>ident = 1, symbol = ''BTC/USDT'', side = ''short'', qty = 25,
     entry_price = 100, atr = 2, stop_loss = Some (Num 104), take_profit = Some (Num 94),
     open_time = 1, status = ''open''\<rparr>"

definition wide_bar :: bar where
  "wide_bar = \<lparr>bar_timestamp = 2, bar_open = 105, bar_high = 107, bar_low = 93,
     bar_close = 100, bar_atr_14 = Some 2\<rparr>"

definition high_bar :: bar where
  "high_bar = \<lparr>bar_timestamp = 3, bar_open = 101, bar_high = 107, bar_low = 99,
     bar_close = 106, bar_atr_14 = Some 2\<rparr>"

definition low_bar :: bar where
  "low_bar = \<lparr>bar_timestamp = 4, bar_open = 93, bar_high = 101, bar_low = 92,
     bar_close = 93, bar_atr_14 = Some 2\<rparr>"

definition one_position_store :: store where
  "one_position_store = \<lparr>positions = [long_position], trades = [], next_id = 1, faults = []\<rparr>"

text \<open>The number of positions with status \<^verbatim>\<open>open\<close>.\<close>

definition open_count :: "store \<Rightarrow> nat" where
  "open_count s = length (filter (\<lambda>p. status p = ''open'') (positions s))"

text \<open>MongoDB keeps \<^verbatim>\<open>_id\<close> unique; in the model the keys are distinct and below the next fresh one.\<close>

definition wf_store :: "store \<Rightarrow> bool" where
  "wf_store s \<longleftrightarrow>
     distinct (map ident (positions s))
     \<and> list_all (\<lambda>i. i < next_id s) (map ident (positions s))"

text \<open>The positions with the keys \<open>ids\<close> marked closed.\<close>

definition close_all :: "nat set \<Rightarrow> position list \<Rightarrow> position list" where
  "close_all ids ps = map (\<lambda>p. if ident p \<in> ids then p\<lparr>status := ''closed''\<rparr> else p) ps"


definition empty_store :: store where
  "empty_store = \<lparr>positions = [], trades = [], next_id = 0, faults = []\<rparr>"

definition entry_bar :: bar where
  "entry_bar = \<lparr>bar_timestamp = 1, bar_open = 100, bar_high = 101, bar_low = 99,
     bar_close = 100, bar_atr_14 = Some 2\<rparr>"

definition quiet_bar :: bar where
  "quiet_bar = \<lparr>bar_timestamp = 2, bar_open = 100, bar_high = 103, bar_low = 99,
     bar_close = 103, bar_atr_14 = Some 2\<rparr>"


definition long_signal :: signal where
  "long_signal = \<lparr>sig_timestamp = 1, signal_type = ''long'', sig_value = 100,
     sig_stop_loss = Some (Num 96), sig_take_profit = Some (Num 106)\<rparr>"



definition no_take_signal :: signal where
  "no_take_signal = \<lparr>sig_timestamp = 1, signal_type = ''long'', sig_value = 100,
     sig_stop_loss = Some (Num 96), sig_take_profit = None\<rparr>"

definition closed_position_store :: store where
  "closed_position_store =
     \<lparr>positions = [long_position\<lparr>status := ''closed''\<rparr>], trades = [], next_id = 1,
      faults = []\<rparr>"

definition failing_query_store :: store where
  "failing_query_store =
     \<lparr>positions = [long_position], trades = [], next_id = 1, faults = [False, True, False]\<rparr>"

text \<open>The sum of two floats, a NaN when either is.\<close>

fun add_level :: "level \<Rightarrow> level \<Rightarrow> level" where
  "add_level (Num x) (Num y) = Num (x + y)"
| "add_level x y = NaN"














section \<open>Basic facts\<close>

lemma db_call_no_faults: "faults s = [] \<Longrightarrow> db_call s = (False, s)"
  by (simp add: db_call_def)

lemma lower_long: "lower ''long'' = ''long''"
  by code_simp

lemma lower_short: "lower ''short'' = ''short''"
  by code_simp

lemma exit_scan_append:
  "exit_scan cfg pos pre = None \<Longrightarrow> exit_scan cfg pos (pre @ rest) = exit_scan cfg pos rest"
  by (induction pre) (auto split: option.splits if_splits)

lemma db_call_fields [simp]:
  "positions (snd (db_call s)) = positions s"
  "trades (snd (db_call s)) = trades s"
  "next_id (snd (db_call s)) = next_id s"
  "faults (snd (db_call s)) = tl (faults s)"
  by (simp_all add: db_call_def split: list.split)

text \<open>\<open>close_position\<close> with the outcomes of its three driver calls spelled out.\<close>

lemma close_position_unfold:
  "close_position cfg s position_id x t r =
     (if fst (db_call s) then (None, snd (db_call s))
      else case find (\<lambda>p. ident p = position_id) (positions s) of
             None \<Rightarrow> (None, snd (db_call s))
           | Some p \<Rightarrow>
               if leverage cfg = 0 then (None, snd (db_call s))
               else if fst (db_call (snd (db_call s)))
                 then (None, snd (db_call (snd (db_call s))))
               else if fst (db_call ((snd (db_call (snd (db_call s))))
                              \<lparr>positions := update_one_status position_id ''closed'' (positions s)\<rparr>))
                 then (None, snd (db_call ((snd (db_call (snd (db_call s))))
                              \<lparr>positions := update_one_status position_id ''closed'' (positions s)\<rparr>)))
               else (Some (trade_of cfg p x t r),
                     (snd (db_call ((snd (db_call (snd (db_call s))))
                              \<lparr>positions := update_one_status position_id ''closed'' (positions s)\<rparr>)))
                       \<lparr>trades := trades s @ [trade_of cfg p x t r]\<rparr>))"
  by (simp add: close_position_def case_prod_beta bool.case_eq_if Let_def trade_of_def
      split: option.split)

lemma close_position_SomeD:
  assumes "close_position cfg s position_id x t r = (Some tr, s')"
  shows "\<exists>p. find (\<lambda>p. ident p = position_id) (positions s) = Some p
           \<and> leverage cfg \<noteq> 0
           \<and> tr = trade_of cfg p x t r
           \<and> positions s' = update_one_status position_id ''closed'' (positions s)
           \<and> trades s' = trades s @ [tr]
           \<and> next_id s' = next_id s"
  using assms unfolding close_position_unfold
  by (auto split: option.splits if_splits)


lemma db_call_fst_no_faults [simp]: "faults s = [] \<Longrightarrow> \<not> fst (db_call s)"
  by (simp add: db_call_def)

lemma get_open_positions_unfold:
  "get_open_positions s =
     (if fst (db_call s) then [] else filter (\<lambda>p. status p = ''open'') (positions s),
      snd (db_call s))"
  by (simp add: get_open_positions_def case_prod_beta bool.case_eq_if)

lemma check_position_limit_snd [simp]:
  "snd (check_position_limit cfg s smb sd entry atr_v) = snd (db_call s)"
  by (simp add: check_position_limit_def get_open_positions_unfold Let_def split: sum.split)


lemma has_open_position_unfold:
  "has_open_position s smb sd entry =
     (\<not> fst (db_call s) \<and>
      find (\<lambda>p. symbol p = smb \<and> side p = sd \<and> entry_price p = entry
                 \<and> status p = ''open'') (positions s) \<noteq> None,
      snd (db_call s))"
  by (simp add: has_open_position_def case_prod_beta bool.case_eq_if)

lemma open_position_unfold:
  "open_position s smb sd entry entry_time q atr_v sl tp =
     (if fst (db_call s) then (None, snd (db_call s))
      else (let position_doc =
                  \<lparr>ident = next_id s, symbol = smb, side = sd, qty = q, entry_price = entry,
                   atr = atr_v,
                   stop_loss = Some (case sl of Some v \<Rightarrow> v | None \<Rightarrow> Num 0),
                   take_profit = Some (case tp of Some v \<Rightarrow> v | None \<Rightarrow> Num 0),
                   open_time = entry_time, status = ''open''\<rparr>
            in (Some position_doc,
                (snd (db_call s))\<lparr>positions := positions s @ [position_doc],
                                  next_id := Suc (next_id s)\<rparr>)))"
  by (simp add: open_position_def case_prod_beta bool.case_eq_if Let_def)


lemma map_ident_update_one_status [simp]:
  "map ident (update_one_status i v ps) = map ident ps"
  by (induction ps) auto


lemma close_position_faults:
  "faults s = [] \<Longrightarrow> faults (snd (close_position cfg s i x t r)) = []"
  unfolding close_position_unfold by (simp split: option.split)


lemma exit_loop_faults:
  "faults s = [] \<Longrightarrow> faults (exit_loop cfg df ps s) = []"
proof (induction ps arbitrary: s)
  case Nil
  then show ?case by simp
next
  case (Cons pos ps)
  show ?case
  proof (cases "check_exit_conditions cfg pos (data_since_entry df pos)")
    case None
    then show ?thesis using Cons by simp
  next
    case (Some e)
    obtain x t r where e: "e = (x, t, r)" by (cases e)
    show ?thesis
      using Some e Cons.IH [OF close_position_faults [OF Cons.prems]] by simp
  qed
qed

lemma open_count_db_call [simp]: "open_count (snd (db_call s)) = open_count s"
  by (simp add: open_count_def)


lemma exit_phase_faults: "faults s = [] \<Longrightarrow> faults (exit_phase cfg df s) = []"
  by (simp add: exit_phase_def get_open_positions_unfold exit_loop_faults)

lemma enter_signal_faults: "faults s = [] \<Longrightarrow> faults (enter_signal cfg smb b sg s) = []"
  by (simp add: enter_signal_def case_prod_beta has_open_position_unfold open_position_unfold
      Let_def split: option.split)


lemma entry_loop_faults:
  "faults s = [] \<Longrightarrow> faults (snd (entry_loop cfg smb b sigs s)) = []"
  by (induction sigs arbitrary: s) (simp_all add: enter_signal_faults)

lemma bar_loop_faults:
  "faults s = [] \<Longrightarrow> faults (snd (bar_loop cfg smb df bars sigs s)) = []"
proof (induction bars arbitrary: s sigs)
  case Nil
  then show ?case by simp
next
  case (Cons b bs)
  from entry_loop_faults [OF exit_phase_faults [OF Cons.prems], of cfg smb b sigs cfg df]
  show ?case using Cons.IH by (simp add: case_prod_beta Let_def)
qed





lemma wf_store_db_call [simp]: "wf_store (snd (db_call s)) = wf_store s"
  by (simp add: wf_store_def)










lemma map_ident_close_all [simp]: "map ident (close_all ids ps) = map ident ps"
  by (simp add: close_all_def comp_def)











lemma check_position_limit_positive:
  assumes "fst (check_position_limit cfg s smb sd entry a) = Some q"
  shows "0 < q"
  using assms
  by (auto simp: check_position_limit_def get_open_positions_unfold Let_def
      split: if_splits sum.splits)

lemma enter_signal_no_faults:
  assumes "faults s = []" and "bar_atr_14 b = Some a"
  shows "enter_signal cfg smb b sg s =
           (case fst (check_position_limit cfg s smb (signal_type sg) (sig_value sg) a) of
              None \<Rightarrow> s
            | Some q \<Rightarrow>
                if 0 < q \<and> find (\<lambda>p. symbol p = smb \<and> side p = signal_type sg
                                     \<and> entry_price p = sig_value sg \<and> status p = ''open'')
                              (positions s) = None
                then s\<lparr>positions := positions s @
                         [\<lparr>ident = next_id s, symbol = smb, side = signal_type sg, qty = q,
                           entry_price = sig_value sg, atr = a,
                           stop_loss = Some (case sig_stop_loss sg of Some v \<Rightarrow> v | None \<Rightarrow> Num 0),
                           take_profit = Some (case sig_take_profit sg of Some v \<Rightarrow> v
                                               | None \<Rightarrow> Num 0),
                           open_time = bar_timestamp b, status = ''open''\<rparr>],
                       next_id := Suc (next_id s)\<rparr>
                else s)"
  using assms
  by (auto simp: enter_signal_def case_prod_beta has_open_position_unfold open_position_unfold
      db_call_no_faults Let_def split: option.split)

lemma update_one_status_closed_id:
  "find (\<lambda>p. ident p = i) ps = Some p \<Longrightarrow> status p = ''closed''
     \<Longrightarrow> update_one_status i ''closed'' ps = ps"
  by (induction ps) (auto split: if_splits)

lemma length_update_one_status [simp]: "length (update_one_status i v ps) = length ps"
  by (induction ps) auto

lemma update_one_status_keeps_closed:
  "k < length ps \<Longrightarrow> status (ps ! k) = ''closed''
     \<Longrightarrow> status (update_one_status i ''closed'' ps ! k) = ''closed''"
proof (induction ps arbitrary: k)
  case Nil
  then show ?case by simp
next
  case (Cons p ps)
  then show ?case by (cases k) auto
qed

lemma close_position_positions:
  "positions (snd (close_position cfg s i x t r)) = positions s
   \<or> (\<exists>p. find (\<lambda>p. ident p = i) (positions s) = Some p
          \<and> positions (snd (close_position cfg s i x t r))
              = update_one_status i ''closed'' (positions s))"
  unfolding close_position_unfold by (simp split: option.split)

lemma exit_scan_absent_level:
  "stop_loss pos = None \<or> take_profit pos = None \<Longrightarrow> exit_scan cfg pos bs = None"
  by (induction bs) (auto split: option.splits)

lemma check_exit_conditions_absent_level:
  "stop_loss pos = None \<or> take_profit pos = None \<Longrightarrow> check_exit_conditions cfg pos df = None"
  by (simp add: check_exit_conditions_def exit_scan_absent_level)

lemma db_call_fst_Cons: "faults s = f # fs \<Longrightarrow> fst (db_call s) = f"
  by (simp add: db_call_def)

lemma add_level_Num0 [simp]: "add_level (Num 0) x = x"
  by (cases x) simp_all

lemma add_level_Num0_right [simp]: "add_level x (Num 0) = x"
  by (cases x) simp_all



















section \<open>Sizing\<close>

text \<open>
  C4, as stated: a stop distance \<open>atr \<times> stopLossMultiple \<le> 0\<close> gives the quantity 0.
  It fails for a negative distance: nothing is raised there, and the quotient, which is
  negative, is rounded and returned.
\<close>

theorem calculate_position_size_negative_distance:
  "(- 2) * stop_loss_atr example_config \<le> 0 \<and>
   calculate_position_size example_config ''BTC/USDT'' 100 (- 2) 10000 = - 25"
  by (simp add: calculate_position_size_def position_size_body_def example_config_def
      py_round_def round_half_even_def)

text \<open>
  C4, amended: \<open>calculate_position_size\<close> never raises; it returns 0 exactly when the
  divisor \<open>atr \<times> stopLossMultiple \<times> leverage\<close> is 0, and otherwise the rounded quotient
  \<open>round(capital \<times> riskPerTrade / (atr \<times> stopLossMultiple \<times> leverage), precision)\<close>,
  also when the stop distance is negative.
\<close>

theorem calculate_position_size_value:
  "calculate_position_size cfg smb entry atr_v cap =
     (if atr_v * stop_loss_atr cfg * leverage cfg = 0 then 0
      else py_round (cap * risk_per_trade cfg / (atr_v * stop_loss_atr cfg * leverage cfg))
             (symbol_precision cfg))"
  by (simp add: calculate_position_size_def position_size_body_def)

theorem calculate_position_size_value_witness:
  "calculate_position_size example_config ''BTC/USDT'' 100 2 10000 = 25 \<and>
   calculate_position_size example_config ''BTC/USDT'' 100 0 10000 = 0"
  using calculate_position_size_value [of example_config "''BTC/USDT''" 100 2 10000]
    calculate_position_size_value [of example_config "''BTC/USDT''" 100 0 10000]
  by (simp add: example_config_def py_round_def round_half_even_def)

section \<open>Exit prices\<close>

text \<open>
  C5: let \<open>b\<close> be a bar that \<open>check_exit_conditions\<close> reaches (no earlier bar since the
  open time fired), for a position with both levels. A long position exits at
  \<open>stop \<times> (1 - slippage)\<close> when \<open>low \<le> stop\<close>, and otherwise at \<open>take \<times> (1 - slippage)\<close>
  when \<open>high \<ge> take\<close>; a short position exits at \<open>max(open, stop) \<times> (1 + slippage)\<close> when
  \<open>high \<ge> stop\<close>, and otherwise at \<open>min(open, take) \<times> (1 + slippage)\<close> when \<open>low \<le> take\<close>.
  The stop-loss cases do not look at the take level: when both fire, the stop-loss wins.
\<close>

theorem check_exit_conditions_first_touch:
  assumes "stop_loss pos = Some (Num st)" and "take_profit pos = Some (Num tk)"
    and "filter (\<lambda>b. open_time pos \<le> bar_timestamp b) df = pre @ b # post"
    and "exit_scan cfg pos pre = None"
  shows "(lower (side pos) = ''long'' \<and> bar_low b \<le> st \<longrightarrow>
           check_exit_conditions cfg pos df =
             Some (st * (1 - slippage cfg), bar_timestamp b, ''stop_loss''))
       \<and> (lower (side pos) = ''long'' \<and> \<not> bar_low b \<le> st \<and> tk \<le> bar_high b \<longrightarrow>
           check_exit_conditions cfg pos df =
             Some (tk * (1 - slippage cfg), bar_timestamp b, ''take_profit''))
       \<and> (lower (side pos) = ''short'' \<and> st \<le> bar_high b \<longrightarrow>
           check_exit_conditions cfg pos df =
             Some (max (bar_open b) st * (1 + slippage cfg), bar_timestamp b, ''stop_loss''))
       \<and> (lower (side pos) = ''short'' \<and> \<not> st \<le> bar_high b \<and> bar_low b \<le> tk \<longrightarrow>
           check_exit_conditions cfg pos df =
             Some (min (bar_open b) tk * (1 + slippage cfg), bar_timestamp b, ''take_profit''))"
proof -
  have "check_exit_conditions cfg pos df = exit_scan cfg pos (b # post)"
    using assms(3,4) by (simp add: check_exit_conditions_def exit_scan_append)
  then show ?thesis
    using assms(1,2) by simp
qed

theorem check_exit_conditions_first_touch_witness:
  "check_exit_conditions example_config long_position [wide_bar]
     = Some (95904 / 1000, 2, ''stop_loss'')
   \<and> check_exit_conditions example_config long_position [high_bar]
     = Some (105894 / 1000, 3, ''take_profit'')
   \<and> check_exit_conditions example_config short_position [wide_bar]
     = Some (105105 / 1000, 2, ''stop_loss'')
   \<and> check_exit_conditions example_config short_position [low_bar]
     = Some (93093 / 1000, 4, ''take_profit'')"
  using
    check_exit_conditions_first_touch
      [of long_position 96 106 "[wide_bar]" "[]" wide_bar "[]" example_config]
    check_exit_conditions_first_touch
      [of long_position 96 106 "[high_bar]" "[]" high_bar "[]" example_config]
    check_exit_conditions_first_touch
      [of short_position 104 94 "[wide_bar]" "[]" wide_bar "[]" example_config]
    check_exit_conditions_first_touch
      [of short_position 104 94 "[low_bar]" "[]" low_bar "[]" example_config]
  by (simp add: long_position_def short_position_def wide_bar_def high_bar_def low_bar_def
      example_config_def lower_long lower_short)

section \<open>Profit and loss\<close>

text \<open>
  C6: a \<open>close_position\<close> call that returns a trade found the position, and the trade it
  recorded has gross P\&L \<open>(x - e) \<times> q\<close> for the side \<open>long\<close> and \<open>(e - x) \<times> q\<close> for the side
  \<open>short\<close>, fee \<open>(|e| + |x|) \<times> q \<times> feeRate / leverage\<close>, and net P\&L gross minus fee.
\<close>

theorem close_position_pnl:
  assumes "close_position cfg s position_id x t r = (Some tr, s')"
  shows "\<exists>p. find (\<lambda>p. ident p = position_id) (positions s) = Some p
           \<and> (side p = ''long'' \<longrightarrow> gross_pnl tr = (x - entry_price p) * qty p)
           \<and> (side p = ''short'' \<longrightarrow> gross_pnl tr = (entry_price p - x) * qty p)
           \<and> fee tr = (\<bar>entry_price p\<bar> + \<bar>x\<bar>) * qty p * fee_rate cfg / leverage cfg
           \<and> pnl tr = gross_pnl tr - fee tr
           \<and> leverage cfg \<noteq> 0
           \<and> trades s' = trades s @ [tr]"
proof -
  from close_position_SomeD [OF assms] obtain p where
    p: "find (\<lambda>p. ident p = position_id) (positions s) = Some p"
    and rest: "leverage cfg \<noteq> 0" "tr = trade_of cfg p x t r" "trades s' = trades s @ [tr]"
    by blast
  show ?thesis
    using p rest by (intro exI [of _ p]) (simp add: trade_of_def)
qed

theorem close_position_pnl_witness:
  "\<exists>tr s'. close_position example_config one_position_store 0 (95904 / 1000) 2 ''stop_loss''
             = (Some tr, s')
     \<and> gross_pnl tr = - (1024 / 10) \<and> fee tr = 195904 / 100000
     \<and> pnl tr = - (1024 / 10) - 195904 / 100000"
proof -
  obtain tr s' where
    c: "close_position example_config one_position_store 0 (95904 / 1000) 2 ''stop_loss''
          = (Some tr, s')"
    by (simp add: close_position_def db_call_def one_position_store_def long_position_def
        example_config_def Let_def)
  from close_position_pnl [OF c] show ?thesis
    using c by (auto simp: one_position_store_def long_position_def example_config_def)
qed

section \<open>Closing twice\<close>

text \<open>
  C7, as stated: a \<open>close_position\<close> call naming an already closed position fails and
  inserts no trade. \<open>close_position\<close> looks the position up by its key alone: on a closed
  position it returns a trade and inserts it.
\<close>

theorem close_position_closed_again:
  "map status (positions closed_position_store) = [''closed'']
   \<and> trades closed_position_store = []
   \<and> fst (close_position example_config closed_position_store 0 105 7 ''stop_loss'') \<noteq> None
   \<and> length (trades (snd (close_position example_config closed_position_store 0 105 7
                              ''stop_loss''))) = 1"
  by code_simp

text \<open>
  C7, amended: a \<open>close_position\<close> call naming a nonexistent position returns a null
  result and changes neither the positions nor the trades; a call naming an already closed
  position changes no position; and no call changes the status of a closed position, so a
  position goes from open to closed at most once.
\<close>

theorem close_position_not_open:
  "(find (\<lambda>p. ident p = i) (positions s) = None \<longrightarrow>
      fst (close_position cfg s i x t r) = None
      \<and> positions (snd (close_position cfg s i x t r)) = positions s
      \<and> trades (snd (close_position cfg s i x t r)) = trades s)
   \<and> (\<forall>p. find (\<lambda>p. ident p = i) (positions s) = Some p \<and> status p = ''closed'' \<longrightarrow>
          positions (snd (close_position cfg s i x t r)) = positions s)
   \<and> (\<forall>k. k < length (positions s) \<and> status (positions s ! k) = ''closed'' \<longrightarrow>
          status (positions (snd (close_position cfg s i x t r)) ! k) = ''closed'')"
proof (intro conjI allI impI)
  assume n: "find (\<lambda>p. ident p = i) (positions s) = None"
  show "fst (close_position cfg s i x t r) = None"
    unfolding close_position_unfold using n by simp
  show "positions (snd (close_position cfg s i x t r)) = positions s"
    unfolding close_position_unfold using n by simp
  show "trades (snd (close_position cfg s i x t r)) = trades s"
    unfolding close_position_unfold using n by simp
next
  fix p
  assume "find (\<lambda>p. ident p = i) (positions s) = Some p \<and> status p = ''closed''"
  then have "update_one_status i ''closed'' (positions s) = positions s"
    by (simp add: update_one_status_closed_id)
  then show "positions (snd (close_position cfg s i x t r)) = positions s"
    using close_position_positions [of cfg s i x t r] by auto
next
  fix k
  assume k: "k < length (positions s) \<and> status (positions s ! k) = ''closed''"
  then have "status (update_one_status i ''closed'' (positions s) ! k) = ''closed''"
    by (simp add: update_one_status_keeps_closed)
  then show "status (positions (snd (close_position cfg s i x t r)) ! k) = ''closed''"
    using close_position_positions [of cfg s i x t r] k by auto
qed

theorem close_position_not_open_witness:
  "fst (close_position example_config closed_position_store 5 105 7 ''stop_loss'') = None
   \<and> positions (snd (close_position example_config closed_position_store 5 105 7 ''stop_loss''))
       = positions closed_position_store
   \<and> trades (snd (close_position example_config closed_position_store 5 105 7 ''stop_loss''))
       = trades closed_position_store
   \<and> positions (snd (close_position example_config closed_position_store 0 105 7 ''stop_loss''))
       = positions closed_position_store
   \<and> status (positions (snd (close_position example_config closed_position_store 0 105 7
                                ''stop_loss'')) ! 0) = ''closed''"
proof -
  have f5: "find (\<lambda>p. ident p = 5) (positions closed_position_store) = None"
    by (simp add: closed_position_store_def long_position_def)
  have f0: "find (\<lambda>p. ident p = 0) (positions closed_position_store)
              = Some (long_position\<lparr>status := ''closed''\<rparr>)
            \<and> status (long_position\<lparr>status := ''closed''\<rparr>) = ''closed''"
    by (simp add: closed_position_store_def long_position_def)
  have k0: "0 < length (positions closed_position_store)
            \<and> status (positions closed_position_store ! 0) = ''closed''"
    by (simp add: closed_position_store_def)
  note a = close_position_not_open
    [of 5 closed_position_store example_config 105 7 "''stop_loss''"]
  note b = close_position_not_open
    [of 0 closed_position_store example_config 105 7 "''stop_loss''"]
  from a f5 have a1:
    "fst (close_position example_config closed_position_store 5 105 7 ''stop_loss'') = None
     \<and> positions (snd (close_position example_config closed_position_store 5 105 7
                         ''stop_loss'')) = positions closed_position_store
     \<and> trades (snd (close_position example_config closed_position_store 5 105 7
                       ''stop_loss'')) = trades closed_position_store"
    by blast
  from b f0 have b1:
    "positions (snd (close_position example_config closed_position_store 0 105 7 ''stop_loss''))
       = positions closed_position_store"
    by blast
  from b k0 have b2:
    "status (positions (snd (close_position example_config closed_position_store 0 105 7
                                ''stop_loss'')) ! 0) = ''closed''"
    by blast
  from a1 b1 b2 show ?thesis by (intro conjI) (elim conjE, assumption)+
qed

section \<open>Absent levels\<close>

text \<open>
  C8: a position without a stop or take level is never exited by the exit check (lemma
  \<open>check_exit_conditions_absent_level\<close>), but a position that \<open>open_position\<close> creates from
  a signal without a take level is stored with the level 0. For a long position every bar
  has \<open>high \<ge> 0\<close>: the first bar since the open time exits it at the price 0 with the reason
  \<^verbatim>\<open>take_profit\<close>.
\<close>

theorem absent_take_profit_exits_at_zero:
  "sig_take_profit no_take_signal = None
   \<and> map take_profit (positions (enter_signal example_config ''BTC/USDT'' entry_bar
                                   no_take_signal empty_store)) = [Some (Num 0)]
   \<and> check_exit_conditions example_config
        (hd (positions (enter_signal example_config ''BTC/USDT'' entry_bar no_take_signal
                          empty_store)))
        [entry_bar, quiet_bar] = Some (0, 1, ''take_profit'')
   \<and> map tr_exit_price (trades (snd (run_symbol example_config ''BTC/USDT''
          [entry_bar, quiet_bar] [no_take_signal] empty_store))) = [0]
   \<and> map reason (trades (snd (run_symbol example_config ''BTC/USDT''
          [entry_bar, quiet_bar] [no_take_signal] empty_store))) = [''take_profit'']"
  by code_simp

section \<open>Duplicate guard under a store error\<close>

text \<open>
  C10: when the store query of \<open>has_open_position\<close> raises, the result is \<open>False\<close>. In the
  entry phase, with the limit check passed, the query of the guard raising and the insert
  succeeding, the guard reports no open position although one with the same symbol, side
  and entry price is open, and the loop opens a second one.
\<close>

theorem has_open_position_query_error:
  assumes "faults s = False # True # False # fs"
    and "bar_atr_14 b = Some a"
    and "fst (check_position_limit cfg s smb (signal_type sg) (sig_value sg) a) = Some q"
    and "p \<in> set (positions s)" and "symbol p = smb" and "side p = signal_type sg"
    and "entry_price p = sig_value sg" and "status p = ''open''"
  shows "(fst (db_call s0) \<longrightarrow> \<not> fst (has_open_position s0 smb0 sd0 entry0))
       \<and> \<not> fst (has_open_position
                  (snd (check_position_limit cfg s smb (signal_type sg) (sig_value sg) a))
                  smb (signal_type sg) (sig_value sg))
       \<and> (\<exists>p'. positions (enter_signal cfg smb b sg s) = positions s @ [p']
                \<and> symbol p' = smb \<and> side p' = signal_type sg
                \<and> entry_price p' = sig_value sg \<and> status p' = ''open'')"
proof (intro conjI)
  show "fst (db_call s0) \<longrightarrow> \<not> fst (has_open_position s0 smb0 sd0 entry0)"
    by (simp add: has_open_position_unfold)
  let ?s1 = "snd (db_call s)"
  let ?s2 = "snd (db_call ?s1)"
  have f1: "faults ?s1 = True # False # fs" using assms(1) by simp
  have f2: "faults ?s2 = False # fs" using assms(1) by simp
  have d1: "fst (db_call ?s1)" using db_call_fst_Cons [OF f1] by simp
  have d2: "\<not> fst (db_call ?s2)" using db_call_fst_Cons [OF f2] by simp
  show "\<not> fst (has_open_position
                 (snd (check_position_limit cfg s smb (signal_type sg) (sig_value sg) a))
                 smb (signal_type sg) (sig_value sg))"
    using d1 by (simp add: has_open_position_unfold)
  have q: "0 < q" using assms(3) by (rule check_position_limit_positive)
  let ?p = "\<lparr>ident = next_id s, symbol = smb, side = signal_type sg, qty = q,
             entry_price = sig_value sg, atr = a,
             stop_loss = Some (case sig_stop_loss sg of Some v \<Rightarrow> v | None \<Rightarrow> Num 0),
             take_profit = Some (case sig_take_profit sg of Some v \<Rightarrow> v | None \<Rightarrow> Num 0),
             open_time = bar_timestamp b, status = ''open''\<rparr>"
  have "positions (enter_signal cfg smb b sg s) = positions s @ [?p]"
    using assms(2,3) q d1 d2
    by (simp add: enter_signal_def case_prod_beta has_open_position_unfold
        open_position_unfold Let_def)
  then show "\<exists>p'. positions (enter_signal cfg smb b sg s) = positions s @ [p']
                \<and> symbol p' = smb \<and> side p' = signal_type sg
                \<and> entry_price p' = sig_value sg \<and> status p' = ''open''"
    by (intro exI [of _ ?p]) simp
qed

theorem has_open_position_query_error_witness:
  "\<not> fst (has_open_position
            (snd (check_position_limit example_config failing_query_store ''BTC/USDT''
                    (signal_type long_signal) (sig_value long_signal) 2))
            ''BTC/USDT'' (signal_type long_signal) (sig_value long_signal))
   \<and> (\<exists>p'. positions (enter_signal example_config ''BTC/USDT'' entry_bar long_signal
                         failing_query_store) = positions failing_query_store @ [p']
           \<and> symbol p' = ''BTC/USDT'' \<and> side p' = signal_type long_signal
           \<and> entry_price p' = sig_value long_signal \<and> status p' = ''open'')"
proof -
  have h1: "faults failing_query_store = False # True # False # []"
    by (simp add: failing_query_store_def)
  have h2: "bar_atr_14 entry_bar = Some 2" by (simp add: entry_bar_def)
  have h3: "fst (check_position_limit example_config failing_query_store ''BTC/USDT''
                   (signal_type long_signal) (sig_value long_signal) 2) = Some 25"
    by code_simp
  have h4: "long_position \<in> set (positions failing_query_store)"
    by (simp add: failing_query_store_def)
  have h5: "symbol long_position = ''BTC/USDT''" "side long_position = signal_type long_signal"
    "entry_price long_position = sig_value long_signal" "status long_position = ''open''"
    by (simp_all add: long_position_def long_signal_def)
  from has_open_position_query_error [OF h1 h2 h3 h4 h5]
  show ?thesis by (rule conjunct2)
qed

section \<open>End of the replay\<close>




section \<open>Position limit\<close>




section \<open>Bars handed to the exit check\<close>




section \<open>Portfolio risk\<close>




end
